theory Spec2Isabelle
  imports Complex_Main
begin

section \<open>Python values\<close>

text \<open>
  The models under \<^verbatim>\<open>app/db/models\<close> are plain classes with mutable fields. A method
  that mutates \<^verbatim>\<open>self\<close> is a function from the object to the updated object; a method
  that raises is a function into \<open>error + 'a\<close>. Every exception raised by the modelled
  code is a \<^verbatim>\<open>ValueError\<close> carrying a fixed message, and it is raised before any field
  is written, so a failed call leaves the object as it was.

  \<^verbatim>\<open>Decimal\<close> amounts are rationals: the sums and differences taken here are exact in
  Python's decimal arithmetic for every value a \<^verbatim>\<open>Numeric(10, 2)\<close> column holds.
  Strings are ASCII strings, identifiers (UUIDs) are natural numbers, and a JSON
  dictionary is an association list.
\<close>

datatype error = ValueError string

type_synonym json = "(string \<times> string) list"

text \<open>Truthiness of an optional string (\<^verbatim>\<open>if reason:\<close>) and of an optional dictionary.\<close>

fun truthy :: "'a list option \<Rightarrow> bool" where
  "truthy None = False"
| "truthy (Some xs) = (xs \<noteq> [])"

section \<open>Payment (app/db/models/payment.py)\<close>

datatype PaymentStatus =
    PAY_INITIATED | PAY_PENDING | PAY_SUCCESS | PAY_FAILED
  | PAY_CANCELLED | PAY_REFUNDED | PAY_PARTIALLY_REFUNDED

record Payment =
  registration_id :: "nat option"
  amount :: rat
  pay_status :: PaymentStatus
  provider_payment_id :: "string option"
  provider_payload :: "json option"
  refund_amount :: "rat option"
  refund_reason :: "string option"
  refund_id :: "string option"
  pay_notes :: "string option"
  webhook_processed :: bool

definition Payment_is_successful :: "Payment \<Rightarrow> bool" where
  "Payment_is_successful p = (pay_status p = PAY_SUCCESS)"

definition Payment_is_refunded :: "Payment \<Rightarrow> bool" where
  "Payment_is_refunded p = (pay_status p \<in> set [PAY_REFUNDED, PAY_PARTIALLY_REFUNDED])"

definition Payment_can_be_refunded :: "Payment \<Rightarrow> bool" where
  "Payment_can_be_refunded p = (Payment_is_successful p \<and> \<not> Payment_is_refunded p)"

definition Payment_refund_amount_remaining :: "Payment \<Rightarrow> rat" where
  "Payment_refund_amount_remaining p =
     (if \<not> Payment_is_successful p then 0
      else case refund_amount p of
             None \<Rightarrow> amount p
           | Some r \<Rightarrow> amount p - r)"

definition Payment_mark_successful :: "Payment \<Rightarrow> string option \<Rightarrow> json option \<Rightarrow> Payment" where
  "Payment_mark_successful p pid provider_data =
     (let p1 = p\<lparr>pay_status := PAY_SUCCESS\<rparr>;
          p2 = (if truthy pid then p1\<lparr>provider_payment_id := pid\<rparr> else p1);
          p3 = (if truthy provider_data then p2\<lparr>provider_payload := provider_data\<rparr> else p2)
      in p3\<lparr>webhook_processed := True\<rparr>)"

definition Payment_mark_failed :: "Payment \<Rightarrow> string option \<Rightarrow> json option \<Rightarrow> Payment" where
  "Payment_mark_failed p reason provider_data =
     (let p1 = p\<lparr>pay_status := PAY_FAILED\<rparr>;
          p2 = (if truthy reason
                then p1\<lparr>pay_notes := Some (''Payment failed: '' @ the reason)\<rparr> else p1);
          p3 = (if truthy provider_data then p2\<lparr>provider_payload := provider_data\<rparr> else p2)
      in p3\<lparr>webhook_processed := True\<rparr>)"

definition Payment_mark_cancelled :: "Payment \<Rightarrow> string option \<Rightarrow> Payment" where
  "Payment_mark_cancelled p reason =
     (let p1 = p\<lparr>pay_status := PAY_CANCELLED\<rparr>
      in if truthy reason
         then p1\<lparr>pay_notes := Some (''Payment cancelled: '' @ the reason)\<rparr> else p1)"

definition Payment_process_refund ::
  "Payment \<Rightarrow> rat \<Rightarrow> string option \<Rightarrow> string option \<Rightarrow> error + Payment" where
  "Payment_process_refund p r reason rid =
     (if \<not> Payment_can_be_refunded p then Inl (ValueError ''Payment cannot be refunded'')
      else if r > Payment_refund_amount_remaining p
        then Inl (ValueError ''Refund amount exceeds remaining amount'')
      else
        let total = (case refund_amount p of None \<Rightarrow> r | Some old \<Rightarrow> old + r);
            p1 = p\<lparr>refund_amount := Some total\<rparr>;
            p2 = (if total = amount p then p1\<lparr>pay_status := PAY_REFUNDED\<rparr>
                  else p1\<lparr>pay_status := PAY_PARTIALLY_REFUNDED\<rparr>);
            p3 = (if truthy reason then p2\<lparr>refund_reason := reason\<rparr> else p2);
            p4 = (if truthy rid then p3\<lparr>refund_id := rid\<rparr> else p3)
        in Inr p4)"

text \<open>
  The amount refunded so far, reading an unset \<^verbatim>\<open>refund_amount\<close> as zero, and the
  bound \<^verbatim>\<open>refund_amount <= amount\<close> on a set one.
\<close>

definition refunded_so_far :: "Payment \<Rightarrow> rat" where
  "refunded_so_far p = (case refund_amount p of None \<Rightarrow> 0 | Some r \<Rightarrow> r)"

definition refund_within_amount :: "Payment \<Rightarrow> bool" where
  "refund_within_amount p = (case refund_amount p of None \<Rightarrow> True | Some r \<Rightarrow> r \<le> amount p)"

text \<open>
  A sequence of calls on one payment object. A call that raises leaves the object
  unchanged and the sequence goes on with the next call.
\<close>

datatype PaymentCall =
    MarkSuccessful "string option" "json option"
  | MarkFailed "string option" "json option"
  | MarkCancelled "string option"
  | ProcessRefund rat "string option" "string option"

fun Payment_call :: "Payment \<Rightarrow> PaymentCall \<Rightarrow> Payment" where
  "Payment_call p (MarkSuccessful pid d) = Payment_mark_successful p pid d"
| "Payment_call p (MarkFailed reason d) = Payment_mark_failed p reason d"
| "Payment_call p (MarkCancelled reason) = Payment_mark_cancelled p reason"
| "Payment_call p (ProcessRefund r reason rid) =
     (case Payment_process_refund p r reason rid of Inl e \<Rightarrow> p | Inr p' \<Rightarrow> p')"

fun Payment_calls :: "Payment \<Rightarrow> PaymentCall list \<Rightarrow> Payment" where
  "Payment_calls p [] = p"
| "Payment_calls p (c # cs) = Payment_calls (Payment_call p c) cs"

fun refund_request_nonneg :: "PaymentCall \<Rightarrow> bool" where
  "refund_request_nonneg (ProcessRefund r reason rid) = (0 \<le> r)"
| "refund_request_nonneg c = True"

text \<open>A payment as \<^verbatim>\<open>PaymentService.create_payment\<close> makes it, marked successful.\<close>

definition new_payment :: "rat \<Rightarrow> nat option \<Rightarrow> Payment" where
  "new_payment a reg =
     \<lparr>registration_id = reg, amount = a, pay_status = PAY_INITIATED,
      provider_payment_id = None, provider_payload = Some [],
      refund_amount = None, refund_reason = None, refund_id = None,
      pay_notes = None, webhook_processed = False\<rparr>"

definition paid_100 :: Payment where
  "paid_100 = Payment_mark_successful (new_payment 100 (Some 21)) None None"

definition paid_100_refunded_40 :: Payment where
  "paid_100_refunded_40 =
     paid_100\<lparr>refund_amount := Some 40, pay_status := PAY_PARTIALLY_REFUNDED\<rparr>"

section \<open>Registration (app/db/models/registration.py)\<close>

datatype RegistrationStatus =
  REG_PENDING | REG_CONFIRMED | REG_CANCELLED | REG_PAID | REG_REJECTED

text \<open>
  The transition methods return nothing and contain no \<^verbatim>\<open>raise\<close>: each is a total
  function on the object. \<^verbatim>\<open>datetime.utcnow()\<close> is the argument \<open>now\<close>.
\<close>

record Registration =
  reg_id :: nat
  student_id :: nat
  sport_category_id :: nat
  reg_status :: RegistrationStatus
  payment_id :: "nat option"
  reg_notes :: "string option"
  confirmed_at :: "nat option"
  cancelled_at :: "nat option"

definition Registration_can_be_cancelled :: "Registration \<Rightarrow> bool" where
  "Registration_can_be_cancelled r = (reg_status r \<in> set [REG_PENDING, REG_CONFIRMED])"

definition Registration_confirm :: "Registration \<Rightarrow> nat \<Rightarrow> Registration" where
  "Registration_confirm r now =
     (if reg_status r = REG_PENDING
      then r\<lparr>reg_status := REG_CONFIRMED, confirmed_at := Some now\<rparr>
      else r)"

definition Registration_cancel :: "Registration \<Rightarrow> nat \<Rightarrow> string option \<Rightarrow> Registration" where
  "Registration_cancel r now reason =
     (if Registration_can_be_cancelled r
      then let r1 = r\<lparr>reg_status := REG_CANCELLED, cancelled_at := Some now\<rparr>
           in if truthy reason
              then r1\<lparr>reg_notes := Some (''Cancelled: '' @ the reason)\<rparr> else r1
      else r)"

definition Registration_reject :: "Registration \<Rightarrow> string option \<Rightarrow> Registration" where
  "Registration_reject r reason =
     (if reg_status r = REG_PENDING
      then let r1 = r\<lparr>reg_status := REG_REJECTED\<rparr>
           in if truthy reason
              then r1\<lparr>reg_notes := Some (''Rejected: '' @ the reason)\<rparr> else r1
      else r)"

definition Registration_mark_as_paid :: "Registration \<Rightarrow> Registration" where
  "Registration_mark_as_paid r =
     (if reg_status r = REG_CONFIRMED then r\<lparr>reg_status := REG_PAID\<rparr> else r)"

section \<open>SportCategory (app/db/models/sport.py)\<close>

text \<open>Python's \<^verbatim>\<open>str.lower\<close> on ASCII strings.\<close>

definition lower_char :: "char \<Rightarrow> char" where
  "lower_char c =
     (case map_of (zip ''ABCDEFGHIJKLMNOPQRSTUVWXYZ'' ''abcdefghijklmnopqrstuvwxyz'') c of
        None \<Rightarrow> c
      | Some l \<Rightarrow> l)"

definition lower :: "string \<Rightarrow> string" where
  "lower s = map lower_char s"

text \<open>
  \<^verbatim>\<open>registrations\<close> is the relationship collection the properties iterate over;
  \<^verbatim>\<open>gender_allowed\<close> is a string column.
\<close>

record SportCategory =
  max_participants :: int
  is_active :: bool
  age_from :: "int option"
  age_to :: "int option"
  gender_allowed :: string
  registrations :: "Registration list"

definition SportCategory_current_registrations :: "SportCategory \<Rightarrow> int" where
  "SportCategory_current_registrations c =
     int (length (filter (\<lambda>r. reg_status r \<in> set [REG_CONFIRMED, REG_PAID]) (registrations c)))"

definition SportCategory_available_spots :: "SportCategory \<Rightarrow> int" where
  "SportCategory_available_spots c =
     max 0 (max_participants c - SportCategory_current_registrations c)"

definition SportCategory_is_full :: "SportCategory \<Rightarrow> bool" where
  "SportCategory_is_full c = (SportCategory_available_spots c = 0)"

text \<open>\<^verbatim>\<open>if self.age_from and ...\<close>: an unset bound and the bound 0 are both skipped.\<close>

fun truthy_int :: "int option \<Rightarrow> bool" where
  "truthy_int None = False"
| "truthy_int (Some n) = (n \<noteq> 0)"

definition SportCategory_is_age_eligible :: "SportCategory \<Rightarrow> int \<Rightarrow> bool" where
  "SportCategory_is_age_eligible c age =
     (if truthy_int (age_from c) \<and> age < the (age_from c) then False
      else if truthy_int (age_to c) \<and> age > the (age_to c) then False
      else True)"

definition SportCategory_is_gender_eligible :: "SportCategory \<Rightarrow> string \<Rightarrow> bool" where
  "SportCategory_is_gender_eligible c gender =
     (if gender_allowed c = ''any'' then True
      else lower gender = lower (gender_allowed c))"

definition SportCategory_can_register :: "SportCategory \<Rightarrow> int \<Rightarrow> string \<Rightarrow> bool" where
  "SportCategory_can_register c age gender =
     (is_active c \<and> \<not> SportCategory_is_full c
      \<and> SportCategory_is_age_eligible c age \<and> SportCategory_is_gender_eligible c gender)"

section \<open>Sponsorship (app/db/models/sponsorship.py)\<close>

datatype SponsorshipStatus =
  SP_APPLIED | SP_UNDER_REVIEW | SP_APPROVED | SP_REJECTED | SP_CANCELLED | SP_EXPIRED

record Sponsorship =
  requested_amount :: rat
  approved_amount :: "rat option"
  sp_status :: SponsorshipStatus
  reviewed_by :: "string option"
  review_notes :: "string option"
  rejection_reason :: "string option"

definition Sponsorship_can_be_approved :: "Sponsorship \<Rightarrow> bool" where
  "Sponsorship_can_be_approved s = (sp_status s \<in> set [SP_APPLIED, SP_UNDER_REVIEW])"

definition Sponsorship_can_be_rejected :: "Sponsorship \<Rightarrow> bool" where
  "Sponsorship_can_be_rejected s = (sp_status s \<in> set [SP_APPLIED, SP_UNDER_REVIEW])"

definition Sponsorship_can_be_cancelled :: "Sponsorship \<Rightarrow> bool" where
  "Sponsorship_can_be_cancelled s =
     (sp_status s \<in> set [SP_APPLIED, SP_UNDER_REVIEW, SP_APPROVED])"

definition Sponsorship_final_amount :: "Sponsorship \<Rightarrow> rat" where
  "Sponsorship_final_amount s =
     (case approved_amount s of Some a \<Rightarrow> a | None \<Rightarrow> requested_amount s)"

definition Sponsorship_approve ::
  "Sponsorship \<Rightarrow> rat option \<Rightarrow> string option \<Rightarrow> string option \<Rightarrow> error + Sponsorship" where
  "Sponsorship_approve s amt reviewer notes =
     (if \<not> Sponsorship_can_be_approved s then Inl (ValueError ''Sponsorship cannot be approved'')
      else
        let s1 = s\<lparr>sp_status := SP_APPROVED\<rparr>;
            s2 = (case amt of None \<Rightarrow> s1 | Some a \<Rightarrow> s1\<lparr>approved_amount := Some a\<rparr>);
            s3 = (if truthy reviewer then s2\<lparr>reviewed_by := reviewer\<rparr> else s2);
            s4 = (if truthy notes then s3\<lparr>review_notes := notes\<rparr> else s3)
        in Inr s4)"

definition Sponsorship_reject ::
  "Sponsorship \<Rightarrow> string \<Rightarrow> string option \<Rightarrow> error + Sponsorship" where
  "Sponsorship_reject s reason reviewer =
     (if \<not> Sponsorship_can_be_rejected s then Inl (ValueError ''Sponsorship cannot be rejected'')
      else
        let s1 = s\<lparr>sp_status := SP_REJECTED, rejection_reason := Some reason\<rparr>
        in Inr (if truthy reviewer then s1\<lparr>reviewed_by := reviewer\<rparr> else s1))"

definition Sponsorship_cancel :: "Sponsorship \<Rightarrow> string option \<Rightarrow> error + Sponsorship" where
  "Sponsorship_cancel s reason =
     (if \<not> Sponsorship_can_be_cancelled s then Inl (ValueError ''Sponsorship cannot be cancelled'')
      else
        let s1 = s\<lparr>sp_status := SP_CANCELLED\<rparr>
        in Inr (if truthy reason
                then s1\<lparr>review_notes := Some (''Cancelled: '' @ the reason)\<rparr> else s1))"

definition Sponsorship_mark_under_review :: "Sponsorship \<Rightarrow> string option \<Rightarrow> error + Sponsorship" where
  "Sponsorship_mark_under_review s reviewer =
     (if sp_status s \<noteq> SP_APPLIED
      then Inl (ValueError ''Only applied sponsorships can be marked as under review'')
      else
        let s1 = s\<lparr>sp_status := SP_UNDER_REVIEW\<rparr>
        in Inr (if truthy reviewer then s1\<lparr>reviewed_by := reviewer\<rparr> else s1))"

section \<open>PaymentService (app/services/payment_service.py)\<close>

text \<open>
  The session the service works on: the payment rows by id and the sport categories by
  id, each category holding its registrations. \<^verbatim>\<open>payment_repo.get\<close> is the lookup in
  \<open>payments\<close>; a mutated payment is written back at \<^verbatim>\<open>commit\<close>. The provider hooks
  called after a refund are empty and are left out.
\<close>

record Database =
  payments :: "nat \<rightharpoonup> Payment"
  categories :: "nat \<rightharpoonup> SportCategory"

text \<open>\<^verbatim>\<open>provider_data.get(key) if provider_data else None\<close>\<close>

definition provider_field :: "json option \<Rightarrow> string \<Rightarrow> string option" where
  "provider_field provider_data key =
     (if truthy provider_data then map_of (the provider_data) key else None)"

definition PaymentService_update_payment_status ::
  "Database \<Rightarrow> nat \<Rightarrow> PaymentStatus \<Rightarrow> json option \<Rightarrow> bool \<times> Database" where
  "PaymentService_update_payment_status db pid st provider_data =
     (case payments db pid of
        None \<Rightarrow> (False, db)
      | Some p \<Rightarrow>
          let p' =
            (if st = PAY_SUCCESS
               then Payment_mark_successful p (provider_field provider_data ''payment_id'') provider_data
             else if st = PAY_FAILED
               then Payment_mark_failed p (provider_field provider_data ''error_message'') provider_data
             else if st = PAY_CANCELLED
               then Payment_mark_cancelled p (provider_field provider_data ''reason'')
             else p)
          in (True, db\<lparr>payments := (payments db)(pid \<mapsto> p')\<rparr>))"

text \<open>\<^verbatim>\<open>refund_amount or payment.amount\<close>: \<^verbatim>\<open>None\<close> and a zero amount are both falsy.\<close>

fun amount_or :: "rat option \<Rightarrow> rat \<Rightarrow> rat" where
  "amount_or None a = a"
| "amount_or (Some x) a = (if x = 0 then a else x)"

definition PaymentService_process_refund ::
  "Database \<Rightarrow> nat \<Rightarrow> rat option \<Rightarrow> string option \<Rightarrow> error + bool \<times> Database" where
  "PaymentService_process_refund db pid refund reason =
     (case payments db pid of
        None \<Rightarrow> Inr (False, db)
      | Some p \<Rightarrow>
          if \<not> Payment_can_be_refunded p then Inr (False, db)
          else
            (case Payment_process_refund p (amount_or refund (amount p)) reason None of
               Inl e \<Rightarrow> Inl e
             | Inr p' \<Rightarrow> Inr (True, db\<lparr>payments := (payments db)(pid \<mapsto> p')\<rparr>)))"

text \<open>The \<^verbatim>\<open>payment\<close> relationship of a registration, resolved in the session.\<close>

definition Registration_payment :: "Database \<Rightarrow> Registration \<Rightarrow> Payment option" where
  "Registration_payment db r = (case payment_id r of None \<Rightarrow> None | Some i \<Rightarrow> payments db i)"

section \<open>Sample objects\<close>

definition pending_registration :: "nat \<Rightarrow> Registration" where
  "pending_registration i =
     \<lparr>reg_id = i, student_id = i, sport_category_id = 31, reg_status = REG_PENDING,
      payment_id = None, reg_notes = None, confirmed_at = None, cancelled_at = None\<rparr>"

definition one_seat_category :: SportCategory where
  "one_seat_category =
     \<lparr>max_participants = 1, is_active = True, age_from = None, age_to = None,
      gender_allowed = ''any'',
      registrations = [pending_registration 21, pending_registration 22]\<rparr>"

definition confirmed_with_payment :: Registration where
  "confirmed_with_payment = (Registration_confirm (pending_registration 21) 5)\<lparr>payment_id := Some 11\<rparr>"

definition paid_registration :: Registration where
  "paid_registration = Registration_mark_as_paid confirmed_with_payment"

definition fee_category :: SportCategory where
  "fee_category =
     \<lparr>max_participants = 10, is_active = True, age_from = None, age_to = None,
      gender_allowed = ''any'', registrations = [confirmed_with_payment]\<rparr>"

definition festival_db :: Database where
  "festival_db =
     \<lparr>payments = [11 \<mapsto> new_payment 100 (Some 21)], categories = [31 \<mapsto> fee_category]\<rparr>"

definition failed_payment_db :: Database where
  "failed_payment_db =
     \<lparr>payments = [11 \<mapsto> Payment_mark_failed (new_payment 100 (Some 21)) None None],
      categories = [31 \<mapsto> fee_category]\<rparr>"

definition remarked_after_refund :: Payment where
  "remarked_after_refund = Payment_mark_successful paid_100_refunded_40 None None"

definition mixed_category :: SportCategory where
  "mixed_category =
     \<lparr>max_participants = 20, is_active = True, age_from = Some 10, age_to = Some 18,
      gender_allowed = ''mixed'', registrations = []\<rparr>"

definition applied_sponsorship :: Sponsorship where
  "applied_sponsorship =
     \<lparr>requested_amount = 500, approved_amount = None, sp_status = SP_APPLIED,
      reviewed_by = None, review_notes = None, rejection_reason = None\<rparr>"

definition paid_db :: Database where
  "paid_db = \<lparr>payments = [11 \<mapsto> paid_100], categories = [31 \<mapsto> fee_category]\<rparr>"

definition remarked_db :: Database where
  "remarked_db =
     \<lparr>payments = [11 \<mapsto> remarked_after_refund], categories = [31 \<mapsto> fee_category]\<rparr>"

section \<open>Properties of the payment model\<close>

lemmas Payment_defs = Payment_is_successful_def Payment_is_refunded_def
  Payment_can_be_refunded_def Payment_refund_amount_remaining_def

lemma paid_100_fields:
  "pay_status paid_100 = PAY_SUCCESS" "amount paid_100 = 100" "refund_amount paid_100 = None"
  by (simp_all add: paid_100_def new_payment_def Payment_mark_successful_def)

lemma paid_100_refunded_40_fields:
  "pay_status paid_100_refunded_40 = PAY_PARTIALLY_REFUNDED"
  "amount paid_100_refunded_40 = 100" "refund_amount paid_100_refunded_40 = Some 40"
  by (simp_all add: paid_100_refunded_40_def paid_100_fields)

lemma remarked_after_refund_fields:
  "pay_status remarked_after_refund = PAY_SUCCESS"
  "amount remarked_after_refund = 100" "refund_amount remarked_after_refund = Some 40"
  by (simp_all add: remarked_after_refund_def Payment_mark_successful_def
        paid_100_refunded_40_fields)

lemma first_refund_40:
  "Payment_process_refund paid_100 40 None None = Inr paid_100_refunded_40"
  by (simp add: Payment_process_refund_def Payment_defs paid_100_fields paid_100_refunded_40_def)

lemma refund_needs_success:
  "pay_status p \<noteq> PAY_SUCCESS \<Longrightarrow>
     Payment_process_refund p r reason rid = Inl (ValueError ''Payment cannot be refunded'')"
  by (simp add: Payment_process_refund_def Payment_defs)

lemma refund_exceeds:
  "pay_status p = PAY_SUCCESS \<Longrightarrow> amount p - refunded_so_far p < r \<Longrightarrow>
     Payment_process_refund p r reason rid
       = Inl (ValueError ''Refund amount exceeds remaining amount'')"
  by (simp add: Payment_process_refund_def Payment_defs refunded_so_far_def split: option.splits)

lemma refund_success_result:
  "Payment_process_refund p r reason rid = Inr p' \<Longrightarrow>
     pay_status p = PAY_SUCCESS
     \<and> refund_amount p' = Some (refunded_so_far p + r)
     \<and> pay_status p' = (if refunded_so_far p + r = amount p then PAY_REFUNDED
                        else PAY_PARTIALLY_REFUNDED)
     \<and> amount p' = amount p \<and> r \<le> amount p - refunded_so_far p"
  by (auto simp: Payment_process_refund_def Payment_defs refunded_so_far_def Let_def
        split: if_splits option.splits)

text \<open>
  Claim C2, as stated, fails on the code. A successful payment of 100.00 accepts the refund
  of 40.00 and becomes \<^verbatim>\<open>partially_refunded\<close> with \<^verbatim>\<open>refund_amount\<close> 40.00; the refund
  of 30.00 that follows is refused by the guard \<^verbatim>\<open>can_be_refunded\<close> with
  "Payment cannot be refunded", where the claim says it succeeds.
\<close>

theorem second_partial_refund_rejected:
  "Payment_process_refund paid_100 40 None None = Inr paid_100_refunded_40
   \<and> Payment_process_refund paid_100_refunded_40 30 None None
       = Inl (ValueError ''Payment cannot be refunded'')"
  by (simp add: first_refund_40 refund_needs_success paid_100_refunded_40_fields)

text \<open>
  Claim C2, amended. \<^verbatim>\<open>Payment.process_refund\<close> succeeds only on a payment whose status
  is \<^verbatim>\<open>success\<close>. A first refund of less than the amount on a successful payment with
  no refund yet succeeds, records the refund amount and sets the status to
  \<^verbatim>\<open>partially_refunded\<close>; every later refund on that payment, whatever its amount, fails
  with "Payment cannot be refunded". A first refund of more than the amount fails with
  "Refund amount exceeds remaining amount".
\<close>

theorem refund_only_from_success:
  "(Payment_process_refund p r reason rid = Inr p' \<longrightarrow> pay_status p = PAY_SUCCESS)
   \<and> (pay_status p = PAY_SUCCESS \<and> refund_amount p = None \<and> r < amount p \<longrightarrow>
        (\<exists>p1. Payment_process_refund p r reason rid = Inr p1
           \<and> refund_amount p1 = Some r \<and> pay_status p1 = PAY_PARTIALLY_REFUNDED
           \<and> (\<forall>r2 reason2 rid2. Payment_process_refund p1 r2 reason2 rid2
                 = Inl (ValueError ''Payment cannot be refunded''))))
   \<and> (pay_status p = PAY_SUCCESS \<and> refund_amount p = None \<and> amount p < r \<longrightarrow>
        Payment_process_refund p r reason rid
          = Inl (ValueError ''Refund amount exceeds remaining amount''))"
proof (intro conjI impI)
  assume "Payment_process_refund p r reason rid = Inr p'"
  then show "pay_status p = PAY_SUCCESS"
    by (simp add: refund_success_result)
next
  assume a: "pay_status p = PAY_SUCCESS \<and> refund_amount p = None \<and> r < amount p"
  then obtain p1 where p1: "Payment_process_refund p r reason rid = Inr p1"
    by (auto simp: Payment_process_refund_def Payment_defs Let_def)
  from refund_success_result [OF p1] a
  have f: "refund_amount p1 = Some r" "pay_status p1 = PAY_PARTIALLY_REFUNDED"
    by (auto simp: refunded_so_far_def)
  from f(2) have "\<forall>r2 reason2 rid2. Payment_process_refund p1 r2 reason2 rid2
                 = Inl (ValueError ''Payment cannot be refunded'')"
    by (simp add: refund_needs_success)
  with p1 f show "\<exists>p1. Payment_process_refund p r reason rid = Inr p1
           \<and> refund_amount p1 = Some r \<and> pay_status p1 = PAY_PARTIALLY_REFUNDED
           \<and> (\<forall>r2 reason2 rid2. Payment_process_refund p1 r2 reason2 rid2
                 = Inl (ValueError ''Payment cannot be refunded''))"
    by blast
next
  assume "pay_status p = PAY_SUCCESS \<and> refund_amount p = None \<and> amount p < r"
  then show "Payment_process_refund p r reason rid
          = Inl (ValueError ''Refund amount exceeds remaining amount'')"
    by (simp add: refund_exceeds refunded_so_far_def)
qed

text \<open>
  The amended claim C2 on the payment of 100.00: refund 40.00 succeeds, refund 30.00 on
  the result fails, and a first refund of 110.00 exceeds the remaining amount.
\<close>

theorem refund_only_from_success_witness:
  "Payment_process_refund paid_100 40 None None = Inr paid_100_refunded_40
   \<and> refund_amount paid_100_refunded_40 = Some 40
   \<and> pay_status paid_100_refunded_40 = PAY_PARTIALLY_REFUNDED
   \<and> Payment_process_refund paid_100_refunded_40 30 None None
       = Inl (ValueError ''Payment cannot be refunded'')
   \<and> Payment_process_refund paid_100 110 None None
       = Inl (ValueError ''Refund amount exceeds remaining amount'')"
proof -
  have h: "pay_status paid_100 = PAY_SUCCESS \<and> refund_amount paid_100 = None
           \<and> (40::rat) < amount paid_100"
    by (simp add: paid_100_fields)
  have h2: "pay_status paid_100 = PAY_SUCCESS \<and> refund_amount paid_100 = None
           \<and> amount paid_100 < (110::rat)"
    by (simp add: paid_100_fields)
  from refund_only_from_success [of paid_100 40 None None paid_100_refunded_40] h
  obtain p1 where p1: "Payment_process_refund paid_100 40 None None = Inr p1"
     "\<forall>r2 reason2 rid2. Payment_process_refund p1 r2 reason2 rid2
                 = Inl (ValueError ''Payment cannot be refunded'')"
    by blast
  from p1(1) have "p1 = paid_100_refunded_40" by (simp add: first_refund_40)
  with p1 refund_only_from_success [of paid_100 110 None None paid_100_refunded_40] h2
  show ?thesis by (simp add: paid_100_refunded_40_fields)
qed

subsection \<open>Sequences of calls\<close>

lemma mark_successful_fields:
  "amount (Payment_mark_successful p a d) = amount p"
  "refund_amount (Payment_mark_successful p a d) = refund_amount p"
  "pay_status (Payment_mark_successful p a d) = PAY_SUCCESS"
  by (simp_all add: Payment_mark_successful_def Let_def)

lemma mark_failed_fields:
  "amount (Payment_mark_failed p a d) = amount p"
  "refund_amount (Payment_mark_failed p a d) = refund_amount p"
  "pay_status (Payment_mark_failed p a d) = PAY_FAILED"
  by (simp_all add: Payment_mark_failed_def Let_def)

lemma mark_cancelled_fields:
  "amount (Payment_mark_cancelled p a) = amount p"
  "refund_amount (Payment_mark_cancelled p a) = refund_amount p"
  "pay_status (Payment_mark_cancelled p a) = PAY_CANCELLED"
  by (simp_all add: Payment_mark_cancelled_def Let_def)

lemmas mark_fields = mark_successful_fields mark_failed_fields mark_cancelled_fields

lemma Payment_call_amount: "amount (Payment_call p c) = amount p"
proof (cases c)
  case (ProcessRefund r reason rid)
  show ?thesis
  proof (cases "Payment_process_refund p r reason rid")
    case (Inl e)
    with ProcessRefund show ?thesis by simp
  next
    case (Inr p')
    with ProcessRefund refund_success_result [OF Inr] show ?thesis by simp
  qed
qed (simp_all add: mark_fields)

lemma Payment_call_within:
  assumes "refund_within_amount p"
  shows "refund_within_amount (Payment_call p c)"
proof (cases c)
  case (ProcessRefund r reason rid)
  show ?thesis
  proof (cases "Payment_process_refund p r reason rid")
    case (Inl e)
    with ProcessRefund assms show ?thesis by simp
  next
    case (Inr p')
    from refund_success_result [OF Inr] have "refund_within_amount p'"
      by (simp add: refund_within_amount_def)
    with ProcessRefund Inr show ?thesis by simp
  qed
qed (use assms in \<open>simp_all add: refund_within_amount_def mark_fields cong: option.case_cong\<close>)

lemma Payment_call_mono:
  assumes "refund_request_nonneg c"
  shows "refunded_so_far p \<le> refunded_so_far (Payment_call p c)"
proof (cases c)
  case (ProcessRefund r reason rid)
  show ?thesis
  proof (cases "Payment_process_refund p r reason rid")
    case (Inl e)
    with ProcessRefund show ?thesis by simp
  next
    case (Inr p')
    from assms ProcessRefund have "0 \<le> r" by simp
    moreover from refund_success_result [OF Inr]
    have "refunded_so_far p' = refunded_so_far p + r"
      by (simp add: refunded_so_far_def)
    ultimately show ?thesis using ProcessRefund Inr by simp
  qed
qed (simp_all add: refunded_so_far_def mark_fields)

lemma Payment_calls_amount: "amount (Payment_calls p cs) = amount p"
  by (induction cs arbitrary: p) (simp_all add: Payment_call_amount)

lemma Payment_calls_within:
  "refund_within_amount p \<Longrightarrow> refund_within_amount (Payment_calls p cs)"
  by (induction cs arbitrary: p) (simp_all add: Payment_call_within)

lemma Payment_calls_mono:
  "list_all refund_request_nonneg cs \<Longrightarrow> refunded_so_far p \<le> refunded_so_far (Payment_calls p cs)"
proof (induction cs arbitrary: p)
  case Nil
  then show ?case by simp
next
  case (Cons c cs)
  have "refunded_so_far p \<le> refunded_so_far (Payment_call p c)"
    using Cons.prems by (simp add: Payment_call_mono)
  also have "\<dots> \<le> refunded_so_far (Payment_calls (Payment_call p c) cs)"
    using Cons.prems by (intro Cons.IH) simp
  finally show ?case by simp
qed

lemma trace_to_refunded_40:
  "Payment_calls (new_payment 100 (Some 21))
     [MarkSuccessful None None, ProcessRefund 40 None None] = paid_100_refunded_40"
proof -
  have "Payment_call (new_payment 100 (Some 21)) (MarkSuccessful None None) = paid_100"
    by (simp add: paid_100_def)
  moreover have "Payment_call paid_100 (ProcessRefund 40 None None) = paid_100_refunded_40"
    by (simp add: first_refund_40)
  ultimately show ?thesis by simp
qed

text \<open>
  Claim C3, amended. Over every sequence of calls of \<^verbatim>\<open>mark_successful\<close>,
  \<^verbatim>\<open>mark_failed\<close>, \<^verbatim>\<open>mark_cancelled\<close> and \<^verbatim>\<open>process_refund\<close> on a payment, the amount
  is fixed and \<^verbatim>\<open>refund_amount\<close> stays at most the amount; when no refund request is
  negative, the refunded amount never decreases. A refund request above the amount minus
  the refunded amount fails with "Refund amount exceeds remaining amount" when the status
  is \<^verbatim>\<open>success\<close>; on every other status any refund request fails with
  "Payment cannot be refunded". A failed request leaves the payment unchanged. A
  successful one adds the request to the refunded amount and sets the status to
  \<^verbatim>\<open>refunded\<close> when the sum equals the amount and to \<^verbatim>\<open>partially_refunded\<close> otherwise.
\<close>

theorem refund_accounting:
  "(refund_within_amount p \<longrightarrow> refund_within_amount (Payment_calls p cs))
   \<and> amount (Payment_calls p cs) = amount p
   \<and> (list_all refund_request_nonneg cs \<longrightarrow>
        refunded_so_far p \<le> refunded_so_far (Payment_calls p cs))
   \<and> (pay_status p = PAY_SUCCESS \<and> amount p - refunded_so_far p < r \<longrightarrow>
        Payment_process_refund p r reason rid
          = Inl (ValueError ''Refund amount exceeds remaining amount''))
   \<and> (pay_status p \<noteq> PAY_SUCCESS \<longrightarrow>
        Payment_process_refund p r reason rid = Inl (ValueError ''Payment cannot be refunded''))
   \<and> (\<forall>e. Payment_process_refund p r reason rid = Inl e \<longrightarrow>
        Payment_call p (ProcessRefund r reason rid) = p)
   \<and> (\<forall>p'. Payment_process_refund p r reason rid = Inr p' \<longrightarrow>
        refund_amount p' = Some (refunded_so_far p + r)
        \<and> pay_status p' = (if refunded_so_far p + r = amount p then PAY_REFUNDED
                           else PAY_PARTIALLY_REFUNDED))"
proof -
  have c: "\<forall>e. Payment_process_refund p r reason rid = Inl e \<longrightarrow>
        Payment_call p (ProcessRefund r reason rid) = p"
    by simp
  have d: "\<forall>p'. Payment_process_refund p r reason rid = Inr p' \<longrightarrow>
        refund_amount p' = Some (refunded_so_far p + r)
        \<and> pay_status p' = (if refunded_so_far p + r = amount p then PAY_REFUNDED
                           else PAY_PARTIALLY_REFUNDED)"
    using refund_success_result [of p r reason rid] by blast
  have a: "refund_within_amount p \<longrightarrow> refund_within_amount (Payment_calls p cs)"
    by (simp add: Payment_calls_within)
  have b: "list_all refund_request_nonneg cs \<longrightarrow>
        refunded_so_far p \<le> refunded_so_far (Payment_calls p cs)"
    by (simp add: Payment_calls_mono)
  have e: "pay_status p = PAY_SUCCESS \<and> amount p - refunded_so_far p < r \<longrightarrow>
        Payment_process_refund p r reason rid
          = Inl (ValueError ''Refund amount exceeds remaining amount'')"
    using refund_exceeds [of p r reason rid] by blast
  have f: "pay_status p \<noteq> PAY_SUCCESS \<longrightarrow>
        Payment_process_refund p r reason rid = Inl (ValueError ''Payment cannot be refunded'')"
    using refund_needs_success [of p r reason rid] by blast
  from a Payment_calls_amount [of p cs] b e f c d show ?thesis by blast
qed

text \<open>
  Claim C3, as stated, fails on the code. The payment of 100.00 with 40.00 refunded is
  reached by \<^verbatim>\<open>mark_successful\<close> and a refund of 40.00. A refund request of 70.00 exceeds
  the 60.00 that remain, and it fails with "Payment cannot be refunded", not with the
  error for an exceeded remaining amount.
\<close>

theorem overshoot_after_partial_refund_not_exceeds_remaining:
  "amount paid_100_refunded_40 = 100 \<and> refund_amount paid_100_refunded_40 = Some 40
   \<and> Payment_calls (new_payment 100 (Some 21))
        [MarkSuccessful None None, ProcessRefund 40 None None] = paid_100_refunded_40
   \<and> Payment_process_refund paid_100_refunded_40 70 None None
       = Inl (ValueError ''Payment cannot be refunded'')"
proof -
  have "Payment_process_refund paid_100_refunded_40 70 None None
       = Inl (ValueError ''Payment cannot be refunded'')"
    by (rule refund_needs_success) (simp add: paid_100_refunded_40_fields)
  with trace_to_refunded_40 paid_100_refunded_40_fields show ?thesis by blast
qed


text \<open>
  The amended claim C3 on the payment of 100.00: the sequence made of a refund of 40.00
  keeps the bound and does not decrease the refunded amount, a request of 110.00 on the
  successful payment exceeds the remaining amount, any request on the partially refunded
  payment is refused, and the refund of 40.00 gives the status \<^verbatim>\<open>partially_refunded\<close>.
\<close>

theorem refund_accounting_witness:
  "refund_within_amount (Payment_calls paid_100 [ProcessRefund 40 None None])
   \<and> amount (Payment_calls paid_100 [ProcessRefund 40 None None]) = 100
   \<and> refunded_so_far paid_100
        \<le> refunded_so_far (Payment_calls paid_100 [ProcessRefund 40 None None])
   \<and> Payment_process_refund paid_100 110 None None
        = Inl (ValueError ''Refund amount exceeds remaining amount'')
   \<and> Payment_process_refund paid_100_refunded_40 70 None None
        = Inl (ValueError ''Payment cannot be refunded'')
   \<and> Payment_call paid_100_refunded_40 (ProcessRefund 70 None None) = paid_100_refunded_40
   \<and> refund_amount paid_100_refunded_40 = Some 40
   \<and> pay_status paid_100_refunded_40 = PAY_PARTIALLY_REFUNDED"
proof -
  have h1: "refund_within_amount paid_100"
    by (simp add: refund_within_amount_def paid_100_fields)
  have h2: "list_all refund_request_nonneg [ProcessRefund 40 None None]"
    by simp
  have h3: "pay_status paid_100 = PAY_SUCCESS \<and> amount paid_100 - refunded_so_far paid_100 < 110"
    by (simp add: refunded_so_far_def paid_100_fields)
  have h4: "pay_status paid_100_refunded_40 \<noteq> PAY_SUCCESS"
    by (simp add: paid_100_refunded_40_fields)
  have h5: "refunded_so_far paid_100 + 40 \<noteq> amount paid_100"
    by (simp add: refunded_so_far_def paid_100_fields)
  have h6: "refunded_so_far paid_100 + 40 = 40" "amount paid_100 = 100"
    by (simp_all add: refunded_so_far_def paid_100_fields)
  note a = refund_accounting [of paid_100 "[ProcessRefund 40 None None]" 110 None None]
  note b = refund_accounting [of paid_100_refunded_40 "[]" 70 None None]
  note c = refund_accounting [of paid_100 "[]" 40 None None]
  from c first_refund_40 h5 h6
  have "refund_amount paid_100_refunded_40 = Some 40
        \<and> pay_status paid_100_refunded_40 = PAY_PARTIALLY_REFUNDED"
    by simp
  moreover from b h4
  have "Payment_process_refund paid_100_refunded_40 70 None None
          = Inl (ValueError ''Payment cannot be refunded'')
        \<and> Payment_call paid_100_refunded_40 (ProcessRefund 70 None None) = paid_100_refunded_40"
    by blast
  moreover from a h1
  have "refund_within_amount (Payment_calls paid_100 [ProcessRefund 40 None None])"
    by blast
  moreover from a have "amount (Payment_calls paid_100 [ProcessRefund 40 None None])
                          = amount paid_100"
    by blast
  with h6(2) have "amount (Payment_calls paid_100 [ProcessRefund 40 None None]) = 100"
    by (simp only:)
  moreover from a h2
  have "refunded_so_far paid_100
          \<le> refunded_so_far (Payment_calls paid_100 [ProcessRefund 40 None None])"
    by blast
  moreover from a h3
  have "Payment_process_refund paid_100 110 None None
          = Inl (ValueError ''Refund amount exceeds remaining amount'')"
    by blast
  ultimately show ?thesis by blast
qed

section \<open>Properties of the payment service\<close>

lemma service_refund_unfold:
  assumes "payments db pid = Some p" "Payment_can_be_refunded p"
  shows "PaymentService_process_refund db pid refund reason =
           (case Payment_process_refund p (amount_or refund (amount p)) reason None of
              Inl e \<Rightarrow> Inl e
            | Inr p' \<Rightarrow> Inr (True, db\<lparr>payments := (payments db)(pid \<mapsto> p')\<rparr>))"
  using assms by (simp add: PaymentService_process_refund_def)

lemma full_refund_accepted:
  assumes "pay_status p = PAY_SUCCESS" "refunded_so_far p = 0"
  shows "\<exists>p'. Payment_process_refund p (amount p) reason rid = Inr p'"
  using assms
  by (auto simp: Payment_process_refund_def Payment_defs refunded_so_far_def Let_def
        split: option.splits)

lemma can_be_refunded_iff: "Payment_can_be_refunded p \<longleftrightarrow> pay_status p = PAY_SUCCESS"
  by (auto simp: Payment_defs)

lemma refunded_so_far_zero:
  "refunded_so_far p = 0 \<longleftrightarrow> refund_amount p = None \<or> refund_amount p = Some 0"
  by (simp add: refunded_so_far_def split: option.splits)

text \<open>
  Claim C10, amended. For a stored payment on which \<^verbatim>\<open>can_be_refunded\<close> holds,
  \<^verbatim>\<open>PaymentService.process_refund\<close> with the amount omitted returns \<^verbatim>\<open>True\<close> and leaves
  the payment with \<^verbatim>\<open>refund_amount\<close> equal to its amount and status \<^verbatim>\<open>refunded\<close> exactly
  when no refund is recorded on it yet (\<^verbatim>\<open>refund_amount\<close> unset or zero).
\<close>

theorem service_full_refund_default:
  assumes "payments db pid = Some p" "Payment_can_be_refunded p"
  shows "(\<exists>db' p'. PaymentService_process_refund db pid None reason = Inr (True, db')
            \<and> payments db' pid = Some p' \<and> amount p' = amount p
            \<and> refund_amount p' = Some (amount p) \<and> pay_status p' = PAY_REFUNDED)
         \<longleftrightarrow> (refund_amount p = None \<or> refund_amount p = Some 0)"
proof
  assume "\<exists>db' p'. PaymentService_process_refund db pid None reason = Inr (True, db')
            \<and> payments db' pid = Some p' \<and> amount p' = amount p
            \<and> refund_amount p' = Some (amount p) \<and> pay_status p' = PAY_REFUNDED"
  then obtain db' p' where r: "PaymentService_process_refund db pid None reason = Inr (True, db')"
    and s: "payments db' pid = Some p'" "refund_amount p' = Some (amount p)"
    by blast
  from r service_refund_unfold [OF assms, of None reason]
  obtain q where q: "Payment_process_refund p (amount p) reason None = Inr q"
    and d: "db' = db\<lparr>payments := (payments db)(pid \<mapsto> q)\<rparr>"
    by (auto split: sum.splits)
  from d s(1) have "q = p'" by simp
  with refund_success_result [OF q] s(2) have "refunded_so_far p = 0" by simp
  then show "refund_amount p = None \<or> refund_amount p = Some 0"
    by (simp add: refunded_so_far_zero)
next
  assume "refund_amount p = None \<or> refund_amount p = Some 0"
  then have z: "refunded_so_far p = 0" by (simp add: refunded_so_far_zero)
  from assms(2) have st: "pay_status p = PAY_SUCCESS" by (simp add: can_be_refunded_iff)
  from full_refund_accepted [OF st z]
  obtain q where q: "Payment_process_refund p (amount p) reason None = Inr q" by blast
  let ?db' = "db\<lparr>payments := (payments db)(pid \<mapsto> q)\<rparr>"
  from q service_refund_unfold [OF assms, of None reason]
  have "PaymentService_process_refund db pid None reason = Inr (True, ?db')" by simp
  moreover have "payments ?db' pid = Some q" by simp
  moreover from refund_success_result [OF q] z
  have "amount q = amount p \<and> refund_amount q = Some (amount p) \<and> pay_status q = PAY_REFUNDED"
    by simp
  ultimately show "\<exists>db' p'. PaymentService_process_refund db pid None reason = Inr (True, db')
            \<and> payments db' pid = Some p' \<and> amount p' = amount p
            \<and> refund_amount p' = Some (amount p) \<and> pay_status p' = PAY_REFUNDED"
    by blast
qed

lemma paid_db_payment: "payments paid_db 11 = Some paid_100"
  by (simp add: paid_db_def)

lemma remarked_db_payment: "payments remarked_db 11 = Some remarked_after_refund"
  by (simp add: remarked_db_def)

text \<open>
  The amended claim C10 on the successful payment of 100.00 with no refund yet.
\<close>

theorem service_full_refund_default_witness:
  "payments paid_db 11 = Some paid_100 \<and> Payment_can_be_refunded paid_100
   \<and> (\<exists>db' p'. PaymentService_process_refund paid_db 11 None None = Inr (True, db')
          \<and> payments db' 11 = Some p' \<and> amount p' = 100
          \<and> refund_amount p' = Some 100 \<and> pay_status p' = PAY_REFUNDED)"
proof -
  have c: "Payment_can_be_refunded paid_100"
    by (simp add: can_be_refunded_iff paid_100_fields)
  from service_full_refund_default [OF paid_db_payment c, of None] paid_100_fields paid_db_payment c
  show ?thesis by simp
qed

lemma trace_to_remarked:
  "Payment_calls (new_payment 100 (Some 21))
     [MarkSuccessful None None, ProcessRefund 40 None None, MarkSuccessful None None]
   = remarked_after_refund"
proof -
  have "Payment_call (new_payment 100 (Some 21)) (MarkSuccessful None None) = paid_100"
    by (simp add: paid_100_def)
  moreover have "Payment_call paid_100 (ProcessRefund 40 None None) = paid_100_refunded_40"
    by (simp add: first_refund_40)
  moreover have "Payment_call paid_100_refunded_40 (MarkSuccessful None None)
                   = remarked_after_refund"
    by (simp add: remarked_after_refund_def)
  ultimately show ?thesis by simp
qed

text \<open>
  Claim C10, as stated, fails on the code. After \<^verbatim>\<open>mark_successful\<close>, a refund of 40.00
  and a second \<^verbatim>\<open>mark_successful\<close> (a repeated success notification), the payment of
  100.00 is refundable again with 40.00 already refunded. The service called without an
  amount asks for the full 100.00, which exceeds the 60.00 that remain, and the call raises
  instead of leaving the payment refunded.
\<close>

theorem service_full_refund_after_earlier_refund_fails:
  "Payment_calls (new_payment 100 (Some 21))
     [MarkSuccessful None None, ProcessRefund 40 None None, MarkSuccessful None None]
     = remarked_after_refund
   \<and> payments remarked_db 11 = Some remarked_after_refund
   \<and> Payment_can_be_refunded remarked_after_refund
   \<and> PaymentService_process_refund remarked_db 11 None None
       = Inl (ValueError ''Refund amount exceeds remaining amount'')"
proof -
  have c: "Payment_can_be_refunded remarked_after_refund"
    by (simp add: can_be_refunded_iff remarked_after_refund_fields)
  have "Payment_process_refund remarked_after_refund 100 None None
          = Inl (ValueError ''Refund amount exceeds remaining amount'')"
    by (rule refund_exceeds)
       (simp_all add: remarked_after_refund_fields refunded_so_far_def)
  with service_refund_unfold [OF remarked_db_payment c, of None None]
  have "PaymentService_process_refund remarked_db 11 None None
          = Inl (ValueError ''Refund amount exceeds remaining amount'')"
    by (simp add: remarked_after_refund_fields)
  with trace_to_remarked remarked_db_payment c show ?thesis by blast
qed

lemma update_status_missing:
  "payments db pid = None \<Longrightarrow>
     PaymentService_update_payment_status db pid st provider_data = (False, db)"
  by (simp add: PaymentService_update_payment_status_def)

lemma update_status_failed:
  "payments db pid = Some p \<Longrightarrow>
     PaymentService_update_payment_status db pid PAY_FAILED provider_data =
       (True, db\<lparr>payments := (payments db)
          (pid \<mapsto> Payment_mark_failed p (provider_field provider_data ''error_message'')
                    provider_data)\<rparr>)"
  by (simp add: PaymentService_update_payment_status_def)

lemma mark_failed_status_amount:
  "pay_status (Payment_mark_failed p a d) = PAY_FAILED"
  "amount (Payment_mark_failed p a d) = amount p"
  by (simp_all add: Payment_mark_failed_def Let_def)

text \<open>
  Claim C4, amended. Marking a payment failed through
  \<^verbatim>\<open>PaymentService.update_payment_status\<close> sets the status of that payment to
  \<^verbatim>\<open>failed\<close> and keeps its amount; the categories and their registrations are untouched,
  so every registration keeps its status and every category keeps its number of
  confirmed or paid registrations. An unknown payment id returns \<^verbatim>\<open>False\<close> and changes
  nothing.
\<close>

theorem failed_payment_leaves_registrations:
  assumes "PaymentService_update_payment_status db pid PAY_FAILED provider_data = (ok, db')"
  shows "categories db' = categories db
         \<and> (\<forall>cid c. categories db cid = Some c \<longrightarrow>
               (\<exists>c'. categories db' cid = Some c' \<and> registrations c' = registrations c
                  \<and> SportCategory_current_registrations c'
                      = SportCategory_current_registrations c))
         \<and> (\<forall>p. payments db pid = Some p \<longrightarrow>
               ok \<and> (\<exists>p'. payments db' pid = Some p' \<and> pay_status p' = PAY_FAILED
                           \<and> amount p' = amount p))
         \<and> (payments db pid = None \<longrightarrow> \<not> ok \<and> db' = db)"
proof (cases "payments db pid")
  case None
  with assms update_status_missing [OF None, of PAY_FAILED provider_data]
  show ?thesis by simp
next
  case (Some p)
  from assms update_status_failed [OF Some, of provider_data]
  have ok: "ok"
    and d: "db' = db\<lparr>payments := (payments db)
          (pid \<mapsto> Payment_mark_failed p (provider_field provider_data ''error_message'')
                    provider_data)\<rparr>"
    by simp_all
  from d have c: "categories db' = categories db" by simp
  from d have p: "payments db' pid
      = Some (Payment_mark_failed p (provider_field provider_data ''error_message'') provider_data)"
    by simp
  from Some ok c p show ?thesis
    by (simp add: mark_failed_status_amount)
qed

lemma fee_category_count: "SportCategory_current_registrations fee_category = 1"
  by (simp add: SportCategory_current_registrations_def fee_category_def
        confirmed_with_payment_def Registration_confirm_def pending_registration_def)

lemma confirmed_with_payment_fields:
  "reg_status confirmed_with_payment = REG_CONFIRMED"
  "payment_id confirmed_with_payment = Some 11"
  by (simp_all add: confirmed_with_payment_def Registration_confirm_def pending_registration_def)

lemma festival_db_fields:
  "payments festival_db 11 = Some (new_payment 100 (Some 21))"
  "categories festival_db 31 = Some fee_category"
  "categories failed_payment_db 31 = Some fee_category"
  "payments failed_payment_db 11 = Some (Payment_mark_failed (new_payment 100 (Some 21)) None None)"
  by (simp_all add: festival_db_def failed_payment_db_def)

lemma festival_payment_failed:
  "PaymentService_update_payment_status festival_db 11 PAY_FAILED None = (True, failed_payment_db)"
proof -
  have "festival_db\<lparr>payments := (payments festival_db)
          (11 \<mapsto> Payment_mark_failed (new_payment 100 (Some 21)) None None)\<rparr>
        = failed_payment_db"
    by (simp add: festival_db_def failed_payment_db_def)
  with update_status_failed [OF festival_db_fields(1), of None]
  show ?thesis by (simp add: provider_field_def)
qed

text \<open>
  Claim C4, as stated, fails on the code. A confirmed registration holds a seat in a
  category and has a payment of 100.00; after the payment is marked failed the category
  still lists the registration as confirmed and still counts one occupied seat, where the
  claim says the registration is cancelled and the count goes down by one.
\<close>

theorem failed_payment_keeps_registration_confirmed:
  "categories festival_db 31 = Some fee_category
   \<and> registrations fee_category = [confirmed_with_payment]
   \<and> reg_status confirmed_with_payment = REG_CONFIRMED
   \<and> payment_id confirmed_with_payment = Some 11
   \<and> payments festival_db 11 = Some (new_payment 100 (Some 21))
   \<and> amount (new_payment 100 (Some 21)) = 100
   \<and> PaymentService_update_payment_status festival_db 11 PAY_FAILED None
        = (True, failed_payment_db)
   \<and> categories failed_payment_db 31 = Some fee_category
   \<and> SportCategory_current_registrations fee_category = 1"
proof -
  have "registrations fee_category = [confirmed_with_payment]"
    by (simp add: fee_category_def)
  moreover have "amount (new_payment 100 (Some 21)) = 100"
    by (simp add: new_payment_def)
  ultimately show ?thesis
    using festival_db_fields confirmed_with_payment_fields festival_payment_failed
      fee_category_count
    by blast
qed

text \<open>
  The amended claim C4 on the session with one confirmed registration and its payment.
\<close>

theorem failed_payment_leaves_registrations_witness:
  "PaymentService_update_payment_status festival_db 11 PAY_FAILED None = (True, failed_payment_db)
   \<and> categories failed_payment_db = categories festival_db
   \<and> (\<exists>c'. categories failed_payment_db 31 = Some c'
          \<and> registrations c' = [confirmed_with_payment]
          \<and> SportCategory_current_registrations c' = 1)
   \<and> reg_status confirmed_with_payment = REG_CONFIRMED
   \<and> (\<exists>p'. payments failed_payment_db 11 = Some p' \<and> pay_status p' = PAY_FAILED
              \<and> amount p' = 100)"
proof -
  note t = failed_payment_leaves_registrations [OF festival_payment_failed]
  have m: "registrations fee_category = [confirmed_with_payment]"
    by (simp add: fee_category_def)
  have a: "amount (new_payment 100 (Some 21)) = 100"
    by (simp add: new_payment_def)
  from t have "categories failed_payment_db = categories festival_db" by blast
  moreover from t festival_db_fields(2)
  have "\<exists>c'. categories failed_payment_db 31 = Some c'
          \<and> registrations c' = registrations fee_category
          \<and> SportCategory_current_registrations c'
              = SportCategory_current_registrations fee_category"
    by blast
  with m fee_category_count
  have "\<exists>c'. categories failed_payment_db 31 = Some c'
          \<and> registrations c' = [confirmed_with_payment]
          \<and> SportCategory_current_registrations c' = 1"
    by simp
  moreover from t festival_db_fields(1) a
  have "\<exists>p'. payments failed_payment_db 11 = Some p' \<and> pay_status p' = PAY_FAILED
              \<and> amount p' = 100"
    by metis
  ultimately show ?thesis
    using festival_payment_failed confirmed_with_payment_fields(1) by blast
qed

section \<open>Properties of registrations and categories\<close>

lemma current_registrations_Cons:
  "SportCategory_current_registrations (c\<lparr>registrations := r # rs\<rparr>)
     = (if reg_status r = REG_CONFIRMED \<or> reg_status r = REG_PAID then 1 else 0)
       + SportCategory_current_registrations (c\<lparr>registrations := rs\<rparr>)"
  by (simp add: SportCategory_current_registrations_def)

lemma is_full_iff:
  "SportCategory_is_full c \<longleftrightarrow> max_participants c \<le> SportCategory_current_registrations c"
  by (simp add: SportCategory_is_full_def SportCategory_available_spots_def max_def)

lemma confirm_pending:
  "reg_status r = REG_PENDING \<Longrightarrow> reg_status (Registration_confirm r now) = REG_CONFIRMED"
  by (simp add: Registration_confirm_def)

text \<open>
  Claim C1, amended. The ceiling is enforced only by the check \<^verbatim>\<open>can_register\<close>: it
  answers \<^verbatim>\<open>False\<close> as soon as the number of confirmed or paid registrations has reached
  \<^verbatim>\<open>max_participants\<close> (\<^verbatim>\<open>is_full\<close> is exactly that), and \<^verbatim>\<open>available_spots\<close> is never
  negative. \<^verbatim>\<open>Registration.confirm\<close> itself consults no capacity: it always moves a
  pending registration to confirmed and raises the count by one.
\<close>

theorem capacity_checked_only_by_can_register:
  "(SportCategory_can_register c age gender \<longrightarrow>
      SportCategory_current_registrations c < max_participants c)
   \<and> 0 \<le> SportCategory_available_spots c
   \<and> (SportCategory_is_full c \<longleftrightarrow>
        max_participants c \<le> SportCategory_current_registrations c)
   \<and> (reg_status r = REG_PENDING \<longrightarrow>
        reg_status (Registration_confirm r now) = REG_CONFIRMED
        \<and> SportCategory_current_registrations
            (c\<lparr>registrations := Registration_confirm r now # rs\<rparr>)
          = SportCategory_current_registrations (c\<lparr>registrations := r # rs\<rparr>) + 1)"
proof -
  have a: "SportCategory_can_register c age gender \<longrightarrow>
      SportCategory_current_registrations c < max_participants c"
    by (auto simp: SportCategory_can_register_def is_full_iff)
  have b: "0 \<le> SportCategory_available_spots c"
    by (simp add: SportCategory_available_spots_def)
  have d: "reg_status r = REG_PENDING \<longrightarrow>
        reg_status (Registration_confirm r now) = REG_CONFIRMED
        \<and> SportCategory_current_registrations
            (c\<lparr>registrations := Registration_confirm r now # rs\<rparr>)
          = SportCategory_current_registrations (c\<lparr>registrations := r # rs\<rparr>) + 1"
    by (simp add: current_registrations_Cons confirm_pending)
  from a b is_full_iff [of c] d show ?thesis by blast
qed

lemma pending_registration_status: "reg_status (pending_registration i) = REG_PENDING"
  by (simp add: pending_registration_def)

lemma one_seat_fields:
  "max_participants one_seat_category = 1"
  "registrations one_seat_category = [pending_registration 21, pending_registration 22]"
  "is_active one_seat_category" "gender_allowed one_seat_category = ''any''"
  "age_from one_seat_category = None" "age_to one_seat_category = None"
  by (simp_all add: one_seat_category_def)

lemma one_seat_counts:
  "SportCategory_current_registrations one_seat_category = 0"
  "SportCategory_current_registrations
     (one_seat_category\<lparr>registrations :=
        [Registration_confirm (pending_registration 21) 5, pending_registration 22]\<rparr>) = 1"
  "SportCategory_current_registrations
     (one_seat_category\<lparr>registrations :=
        [Registration_confirm (pending_registration 21) 5,
         Registration_confirm (pending_registration 22) 6]\<rparr>) = 2"
  by (simp_all add: SportCategory_current_registrations_def one_seat_fields
        pending_registration_status confirm_pending)

text \<open>
  Claim C1, as stated, fails on the code. In a category with one seat and two pending
  registrations, confirming the first fills the seat; confirming the second also succeeds
  and the count of confirmed registrations becomes 2, above \<^verbatim>\<open>max_participants\<close> = 1.
\<close>

theorem confirm_exceeds_max_participants:
  "max_participants one_seat_category = 1
   \<and> registrations one_seat_category = [pending_registration 21, pending_registration 22]
   \<and> SportCategory_current_registrations
       (one_seat_category\<lparr>registrations :=
          [Registration_confirm (pending_registration 21) 5, pending_registration 22]\<rparr>) = 1
   \<and> reg_status (Registration_confirm (pending_registration 22) 6) = REG_CONFIRMED
   \<and> SportCategory_current_registrations
       (one_seat_category\<lparr>registrations :=
          [Registration_confirm (pending_registration 21) 5,
           Registration_confirm (pending_registration 22) 6]\<rparr>) = 2"
  using one_seat_fields(1,2) one_seat_counts(2,3)
    confirm_pending [OF pending_registration_status, of 22 6]
  by blast

text \<open>
  The amended claim C1 on the one-seat category: it accepts a registration while empty,
  and confirming its first pending registration raises the count by one.
\<close>

theorem capacity_checked_only_by_can_register_witness:
  "SportCategory_can_register one_seat_category 12 ''female''
   \<and> SportCategory_current_registrations one_seat_category < max_participants one_seat_category
   \<and> \<not> SportCategory_is_full one_seat_category
   \<and> reg_status (Registration_confirm (pending_registration 21) 5) = REG_CONFIRMED
   \<and> SportCategory_current_registrations
        (one_seat_category\<lparr>registrations :=
           [Registration_confirm (pending_registration 21) 5, pending_registration 22]\<rparr>)
      = SportCategory_current_registrations
        (one_seat_category\<lparr>registrations :=
           [pending_registration 21, pending_registration 22]\<rparr>) + 1"
proof -
  note t = capacity_checked_only_by_can_register [of one_seat_category 12 "''female''" "pending_registration 21" 5
                     "[pending_registration 22]"]
  have f: "\<not> SportCategory_is_full one_seat_category"
    by (simp add: is_full_iff one_seat_fields one_seat_counts)
  then have c: "SportCategory_can_register one_seat_category 12 ''female''"
    by (simp add: SportCategory_can_register_def SportCategory_is_age_eligible_def
          SportCategory_is_gender_eligible_def one_seat_fields)
  from t c f pending_registration_status [of 21] show ?thesis by blast
qed

lemma mark_as_paid_confirmed:
  "reg_status r = REG_CONFIRMED \<Longrightarrow> Registration_mark_as_paid r = r\<lparr>reg_status := REG_PAID\<rparr>"
  by (simp add: Registration_mark_as_paid_def)

lemma mark_as_paid_other:
  "reg_status r \<noteq> REG_CONFIRMED \<Longrightarrow> Registration_mark_as_paid r = r"
  by (simp add: Registration_mark_as_paid_def)

text \<open>
  Claim C5, amended. \<^verbatim>\<open>mark_as_paid\<close> moves a registration to \<^verbatim>\<open>paid\<close> when its status
  is \<^verbatim>\<open>confirmed\<close> and leaves every other registration unchanged; the associated payment
  is not consulted, so a confirmed registration with no payment, or with a payment that is
  not \<^verbatim>\<open>success\<close>, becomes paid as well.
\<close>

theorem mark_as_paid_checks_status_only:
  "(reg_status r = REG_CONFIRMED \<longrightarrow> Registration_mark_as_paid r = r\<lparr>reg_status := REG_PAID\<rparr>)
   \<and> (reg_status r \<noteq> REG_CONFIRMED \<longrightarrow> Registration_mark_as_paid r = r)
   \<and> (reg_status r = REG_CONFIRMED
        \<and> (Registration_payment db r = None
            \<or> (\<exists>p. Registration_payment db r = Some p \<and> pay_status p \<noteq> PAY_SUCCESS))
        \<longrightarrow> reg_status (Registration_mark_as_paid r) = REG_PAID)"
  using mark_as_paid_confirmed [of r] mark_as_paid_other [of r] by auto

lemma failed_payment_of_registration:
  "Registration_payment failed_payment_db confirmed_with_payment
     = Some (Payment_mark_failed (new_payment 100 (Some 21)) None None)"
  by (simp add: Registration_payment_def confirmed_with_payment_fields failed_payment_db_def)

text \<open>
  Claim C5, as stated, fails on the code. The confirmed registration's payment has been
  marked failed, and \<^verbatim>\<open>mark_as_paid\<close> still sets the registration to \<^verbatim>\<open>paid\<close>.
\<close>

theorem mark_as_paid_with_failed_payment:
  "reg_status confirmed_with_payment = REG_CONFIRMED
   \<and> Registration_payment failed_payment_db confirmed_with_payment
       = Some (Payment_mark_failed (new_payment 100 (Some 21)) None None)
   \<and> pay_status (Payment_mark_failed (new_payment 100 (Some 21)) None None) = PAY_FAILED
   \<and> reg_status (Registration_mark_as_paid confirmed_with_payment) = REG_PAID"
  by (simp add: confirmed_with_payment_fields failed_payment_of_registration
        mark_failed_status_amount mark_as_paid_confirmed)

text \<open>
  The amended claim C5 on the confirmed registration with a failed payment and on a
  pending registration.
\<close>

theorem mark_as_paid_checks_status_only_witness:
  "Registration_mark_as_paid confirmed_with_payment
     = confirmed_with_payment\<lparr>reg_status := REG_PAID\<rparr>
   \<and> Registration_mark_as_paid (pending_registration 22) = pending_registration 22
   \<and> reg_status (Registration_mark_as_paid confirmed_with_payment) = REG_PAID"
proof -
  have h: "reg_status confirmed_with_payment = REG_CONFIRMED
        \<and> (Registration_payment failed_payment_db confirmed_with_payment = None
            \<or> (\<exists>p. Registration_payment failed_payment_db confirmed_with_payment = Some p
                   \<and> pay_status p \<noteq> PAY_SUCCESS))"
    by (simp add: confirmed_with_payment_fields failed_payment_of_registration
          mark_failed_status_amount)
  have g: "reg_status (pending_registration 22) \<noteq> REG_CONFIRMED"
    by (simp add: pending_registration_def)
  from mark_as_paid_checks_status_only [of confirmed_with_payment failed_payment_db] h
       mark_as_paid_checks_status_only [of "pending_registration 22" failed_payment_db] g
  show ?thesis by blast
qed

lemma paid_registration_status: "reg_status paid_registration = REG_PAID"
  by (simp add: paid_registration_def mark_as_paid_confirmed confirmed_with_payment_fields)

text \<open>
  Claim C6, amended. \<^verbatim>\<open>confirm\<close>, \<^verbatim>\<open>cancel\<close>, \<^verbatim>\<open>reject\<close> and \<^verbatim>\<open>mark_as_paid\<close> invoked
  from a state where they do not apply return normally, raise no error and leave the
  registration unchanged; in particular cancelling a paid registration does nothing.
\<close>

theorem registration_invalid_transition_is_silent:
  "(reg_status r \<noteq> REG_PENDING \<longrightarrow> Registration_confirm r now = r)
   \<and> (reg_status r \<noteq> REG_PENDING \<and> reg_status r \<noteq> REG_CONFIRMED \<longrightarrow>
        Registration_cancel r now reason = r)
   \<and> (reg_status r \<noteq> REG_PENDING \<longrightarrow> Registration_reject r reason = r)
   \<and> (reg_status r \<noteq> REG_CONFIRMED \<longrightarrow> Registration_mark_as_paid r = r)
   \<and> (reg_status r = REG_PAID \<longrightarrow> Registration_cancel r now reason = r)"
  by (simp add: Registration_confirm_def Registration_cancel_def Registration_reject_def
        Registration_mark_as_paid_def Registration_can_be_cancelled_def)

text \<open>
  Claim C6, as stated, fails on the code. Cancelling a paid registration returns the
  registration as it was, still \<^verbatim>\<open>paid\<close>; the method has no error to return.
\<close>

theorem cancel_paid_registration_is_silent:
  "reg_status paid_registration = REG_PAID
   \<and> Registration_cancel paid_registration 9 (Some ''withdrawn'') = paid_registration"
  by (simp add: paid_registration_status Registration_cancel_def
        Registration_can_be_cancelled_def)

text \<open>
  The amended claim C6 on a paid registration: none of the four calls changes it.
\<close>

theorem registration_invalid_transition_is_silent_witness:
  "Registration_confirm paid_registration 9 = paid_registration
   \<and> Registration_cancel paid_registration 9 (Some ''withdrawn'') = paid_registration
   \<and> Registration_reject paid_registration (Some ''late'') = paid_registration
   \<and> Registration_mark_as_paid paid_registration = paid_registration"
  using registration_invalid_transition_is_silent [of paid_registration 9 "Some ''withdrawn''"]
        registration_invalid_transition_is_silent [of paid_registration 9 "Some ''late''"]
  by (simp add: paid_registration_status)

lemma lower_samples:
  "lower ''mixed'' = ''mixed''" "lower ''male'' = ''male''" "lower ''female'' = ''female''"
  "lower ''Mixed'' = ''mixed''" "lower ''MIXED'' = ''mixed''"
  by (simp_all add: lower_def lower_char_def)

text \<open>
  Claim C9. \<^verbatim>\<open>is_gender_eligible\<close> admits every gender when \<^verbatim>\<open>gender_allowed\<close> is
  \<^verbatim>\<open>any\<close> and otherwise compares the lower-cased gender with the lower-cased
  \<^verbatim>\<open>gender_allowed\<close>, so that two genders differing only in case are treated alike. A
  category with \<^verbatim>\<open>gender_allowed\<close> = \<^verbatim>\<open>mixed\<close> admits exactly the genders that read
  \<^verbatim>\<open>mixed\<close> in lower case; it admits neither \<^verbatim>\<open>male\<close> nor \<^verbatim>\<open>female\<close>.
\<close>

theorem gender_eligibility:
  "SportCategory_is_gender_eligible c gender
     = (gender_allowed c = ''any'' \<or> lower gender = lower (gender_allowed c))
   \<and> (gender_allowed c = ''any'' \<longrightarrow> SportCategory_is_gender_eligible c gender)
   \<and> (lower gender = lower gender' \<longrightarrow>
        SportCategory_is_gender_eligible c gender = SportCategory_is_gender_eligible c gender')
   \<and> (gender_allowed c = ''mixed'' \<longrightarrow>
        (SportCategory_is_gender_eligible c gender \<longleftrightarrow> lower gender = ''mixed'')
        \<and> \<not> SportCategory_is_gender_eligible c ''male''
        \<and> \<not> SportCategory_is_gender_eligible c ''female'')"
  by (simp add: SportCategory_is_gender_eligible_def lower_samples)

text \<open>
  Claim C9 on a category open to any gender and on a mixed category.
\<close>

theorem gender_eligibility_witness:
  "SportCategory_is_gender_eligible one_seat_category ''male''
   \<and> SportCategory_is_gender_eligible mixed_category ''Mixed''
   \<and> SportCategory_is_gender_eligible mixed_category ''MIXED''
   \<and> \<not> SportCategory_is_gender_eligible mixed_category ''male''
   \<and> \<not> SportCategory_is_gender_eligible mixed_category ''female''"
proof -
  have a: "gender_allowed one_seat_category = ''any''" by (simp add: one_seat_category_def)
  have m: "gender_allowed mixed_category = ''mixed''" by (simp add: mixed_category_def)
  have l: "lower ''Mixed'' = lower ''MIXED''" by (simp add: lower_samples)
  note t1 = gender_eligibility [of one_seat_category "''male''" "''male''"]
  note t2 = gender_eligibility [of mixed_category "''Mixed''" "''MIXED''"]
  from t1 [THEN conjunct2, THEN conjunct1] a
  have x1: "SportCategory_is_gender_eligible one_seat_category ''male''" by simp
  from t2 [THEN conjunct2, THEN conjunct2, THEN conjunct2] m
  have x2: "SportCategory_is_gender_eligible mixed_category ''Mixed''"
    and x3: "\<not> SportCategory_is_gender_eligible mixed_category ''male''"
    and x4: "\<not> SportCategory_is_gender_eligible mixed_category ''female''"
    by (simp_all add: lower_samples)
  from t2 [THEN conjunct2, THEN conjunct2, THEN conjunct1] l x2
  have x5: "SportCategory_is_gender_eligible mixed_category ''MIXED''" by simp
  from x1 x2 x3 x4 x5 show ?thesis by simp
qed

section \<open>Properties of the sponsorship model\<close>

lemma approve_allowed:
  assumes "sp_status s = SP_APPLIED \<or> sp_status s = SP_UNDER_REVIEW"
  shows "\<exists>s'. Sponsorship_approve s amt reviewer notes = Inr s'
           \<and> sp_status s' = SP_APPROVED
           \<and> approved_amount s' = (case amt of None \<Rightarrow> approved_amount s | Some a \<Rightarrow> Some a)
           \<and> requested_amount s' = requested_amount s"
  using assms
  by (auto simp: Sponsorship_approve_def Sponsorship_can_be_approved_def Let_def
        split: option.splits)

text \<open>
  Claim C7, amended. On a sponsorship in state \<^verbatim>\<open>applied\<close> or \<^verbatim>\<open>under_review\<close>,
  \<^verbatim>\<open>approve\<close> with the amount omitted succeeds, sets the status to \<^verbatim>\<open>approved\<close> and leaves
  \<^verbatim>\<open>approved_amount\<close> as it was; when it was unset, \<^verbatim>\<open>final_amount\<close> reads the requested
  amount. \<^verbatim>\<open>approve\<close> with an amount succeeds for every amount, zero and negative ones
  included, and stores it.
\<close>

theorem approve_amount_handling:
  assumes "sp_status s = SP_APPLIED \<or> sp_status s = SP_UNDER_REVIEW"
  shows "(\<exists>s'. Sponsorship_approve s None reviewer notes = Inr s'
            \<and> sp_status s' = SP_APPROVED
            \<and> approved_amount s' = approved_amount s
            \<and> (approved_amount s = None \<longrightarrow>
                  Sponsorship_final_amount s' = requested_amount s))
         \<and> (\<exists>s'. Sponsorship_approve s (Some a) reviewer notes = Inr s'
            \<and> sp_status s' = SP_APPROVED
            \<and> approved_amount s' = Some a
            \<and> Sponsorship_final_amount s' = a)"
proof (rule conjI)
  from approve_allowed [OF assms, of None reviewer "notes"]
  obtain s1 where s1: "Sponsorship_approve s None reviewer notes = Inr s1"
    and f1: "sp_status s1 = SP_APPROVED" "approved_amount s1 = approved_amount s"
    "requested_amount s1 = requested_amount s"
    by (elim exE conjE) simp
  from f1 have "approved_amount s = None \<longrightarrow> Sponsorship_final_amount s1 = requested_amount s"
    by (simp add: Sponsorship_final_amount_def)
  with s1 f1 show "\<exists>s'. Sponsorship_approve s None reviewer notes = Inr s'
            \<and> sp_status s' = SP_APPROVED
            \<and> approved_amount s' = approved_amount s
            \<and> (approved_amount s = None \<longrightarrow>
                  Sponsorship_final_amount s' = requested_amount s)"
    by (intro exI [of _ s1]) simp
next
  from approve_allowed [OF assms, of "Some a" reviewer "notes"]
  obtain s2 where s2: "Sponsorship_approve s (Some a) reviewer notes = Inr s2"
    and f2: "sp_status s2 = SP_APPROVED" "approved_amount s2 = Some a"
    by (elim exE conjE) simp
  from f2 have "Sponsorship_final_amount s2 = a"
    by (simp add: Sponsorship_final_amount_def)
  with s2 f2 show "\<exists>s'. Sponsorship_approve s (Some a) reviewer notes = Inr s'
            \<and> sp_status s' = SP_APPROVED
            \<and> approved_amount s' = Some a
            \<and> Sponsorship_final_amount s' = a"
    by (intro exI [of _ s2]) simp
qed

lemma applied_sponsorship_fields:
  "sp_status applied_sponsorship = SP_APPLIED" "approved_amount applied_sponsorship = None"
  "requested_amount applied_sponsorship = 500"
  by (simp_all add: applied_sponsorship_def)

text \<open>
  Claim C7, as stated, fails on the code. Approving the application for 500.00 without an
  amount leaves \<^verbatim>\<open>approved_amount\<close> unset, not 500.00, and approving it with -5.00 or with
  0.00 is accepted.
\<close>

theorem approve_leaves_amount_unset_and_accepts_nonpositive:
  "Sponsorship_approve applied_sponsorship None None None
     = Inr (applied_sponsorship\<lparr>sp_status := SP_APPROVED\<rparr>)
   \<and> approved_amount (applied_sponsorship\<lparr>sp_status := SP_APPROVED\<rparr>) = None
   \<and> requested_amount (applied_sponsorship\<lparr>sp_status := SP_APPROVED\<rparr>) = 500
   \<and> Sponsorship_approve applied_sponsorship (Some (- 5)) None None
     = Inr (applied_sponsorship\<lparr>sp_status := SP_APPROVED, approved_amount := Some (- 5)\<rparr>)
   \<and> Sponsorship_approve applied_sponsorship (Some 0) None None
     = Inr (applied_sponsorship\<lparr>sp_status := SP_APPROVED, approved_amount := Some 0\<rparr>)"
  by (simp add: Sponsorship_approve_def Sponsorship_can_be_approved_def
        applied_sponsorship_fields)

text \<open>
  The amended claim C7 on the application for 500.00.
\<close>

theorem approve_amount_handling_witness:
  "(\<exists>s'. Sponsorship_approve applied_sponsorship None None None = Inr s'
      \<and> sp_status s' = SP_APPROVED \<and> approved_amount s' = None
      \<and> Sponsorship_final_amount s' = 500)
   \<and> (\<exists>s'. Sponsorship_approve applied_sponsorship (Some 0) None None = Inr s'
      \<and> sp_status s' = SP_APPROVED \<and> approved_amount s' = Some 0
      \<and> Sponsorship_final_amount s' = 0)"
proof -
  have h: "sp_status applied_sponsorship = SP_APPLIED
           \<or> sp_status applied_sponsorship = SP_UNDER_REVIEW"
    by (simp add: applied_sponsorship_fields)
  from approve_amount_handling [OF h, of None None 0] show ?thesis
    by (simp add: applied_sponsorship_fields)
qed

text \<open>
  Claim C8, amended. On a sponsorship in state \<^verbatim>\<open>rejected\<close>, \<^verbatim>\<open>cancelled\<close> or
  \<^verbatim>\<open>expired\<close>, each of \<^verbatim>\<open>mark_under_review\<close>, \<^verbatim>\<open>approve\<close>, \<^verbatim>\<open>reject\<close> and \<^verbatim>\<open>cancel\<close>
  raises a \<^verbatim>\<open>ValueError\<close> whose message is fixed by the method called and does not depend
  on the current state; the sponsorship is unchanged, since the error is raised before
  any field is written.
\<close>

theorem terminal_sponsorship_transitions_fail:
  assumes "sp_status s = SP_REJECTED \<or> sp_status s = SP_CANCELLED \<or> sp_status s = SP_EXPIRED"
  shows "Sponsorship_mark_under_review s reviewer
           = Inl (ValueError ''Only applied sponsorships can be marked as under review'')
         \<and> Sponsorship_approve s amt reviewer notes
           = Inl (ValueError ''Sponsorship cannot be approved'')
         \<and> Sponsorship_reject s reason reviewer
           = Inl (ValueError ''Sponsorship cannot be rejected'')
         \<and> Sponsorship_cancel s creason
           = Inl (ValueError ''Sponsorship cannot be cancelled'')"
  using assms
  by (auto simp: Sponsorship_mark_under_review_def Sponsorship_approve_def
        Sponsorship_reject_def Sponsorship_cancel_def Sponsorship_can_be_approved_def
        Sponsorship_can_be_rejected_def Sponsorship_can_be_cancelled_def)

text \<open>
  Claim C8, as stated, fails on the code. The error does not name the current state:
  approving a rejected sponsorship and approving an expired one raise the same
  \<^verbatim>\<open>ValueError\<close> with the message "Sponsorship cannot be approved".
\<close>

theorem terminal_error_does_not_name_current_state:
  "Sponsorship_approve (applied_sponsorship\<lparr>sp_status := SP_REJECTED\<rparr>) None None None
     = Inl (ValueError ''Sponsorship cannot be approved'')
   \<and> Sponsorship_approve (applied_sponsorship\<lparr>sp_status := SP_EXPIRED\<rparr>) None None None
     = Inl (ValueError ''Sponsorship cannot be approved'')"
  by (simp add: Sponsorship_approve_def Sponsorship_can_be_approved_def)

text \<open>
  The amended claim C8 on an expired sponsorship.
\<close>

theorem terminal_sponsorship_transitions_fail_witness:
  "Sponsorship_mark_under_review (applied_sponsorship\<lparr>sp_status := SP_EXPIRED\<rparr>) None
     = Inl (ValueError ''Only applied sponsorships can be marked as under review'')
   \<and> Sponsorship_approve (applied_sponsorship\<lparr>sp_status := SP_EXPIRED\<rparr>) (Some 100) None None
     = Inl (ValueError ''Sponsorship cannot be approved'')
   \<and> Sponsorship_reject (applied_sponsorship\<lparr>sp_status := SP_EXPIRED\<rparr>) ''late'' None
     = Inl (ValueError ''Sponsorship cannot be rejected'')
   \<and> Sponsorship_cancel (applied_sponsorship\<lparr>sp_status := SP_EXPIRED\<rparr>) None
     = Inl (ValueError ''Sponsorship cannot be cancelled'')"
proof -
  have h: "sp_status (applied_sponsorship\<lparr>sp_status := SP_EXPIRED\<rparr>) = SP_REJECTED
     \<or> sp_status (applied_sponsorship\<lparr>sp_status := SP_EXPIRED\<rparr>) = SP_CANCELLED
     \<or> sp_status (applied_sponsorship\<lparr>sp_status := SP_EXPIRED\<rparr>) = SP_EXPIRED"
    by simp
  from terminal_sponsorship_transitions_fail [OF h, of None "Some 100" None "''late''" None] show ?thesis .
qed

end
